theory Spec2Isabelle
  imports Complex_Main
begin

section \<open>Values of the input table\<close>

text \<open>
  The program is \<^verbatim>\<open>fedex_csv_splitter_enhanced.py\<close>. It loads a shipment manifest
  with pandas, cleans its fields, reconciles declared values, validates recipient
  addresses, splits the columns into two tables and writes both with a report.

  A cell of the loaded table is a missing value (pandas' \<open>NaN\<close>, for which
  \<^verbatim>\<open>pd.isna\<close> holds), a Python \<open>str\<close> or a number. A \<open>str\<close> is a HOL string, one
  \<open>char\<close> for each character; the character classes and case mappings below are
  Python's on ASCII text. Numbers are exact rationals: the rounding of binary
  floating point is not modelled, and the tolerance \<open>0.01\<close> is the rational \<open>1/100\<close>.
\<close>

datatype cell = NaN | Str string | Num rat

definition isna :: "cell \<Rightarrow> bool" where
  "isna c = (c = NaN)"

text \<open>Python's truth value of a cell that is not missing (\<^verbatim>\<open>not country\<close>).\<close>

definition falsy :: "cell \<Rightarrow> bool" where
  "falsy c = (case c of NaN \<Rightarrow> False | Str s \<Rightarrow> s = [] | Num r \<Rightarrow> r = 0)"

text \<open>
  \<^verbatim>\<open>str(x)\<close>. How Python prints a number (\<open>5\<close>, \<open>5.0\<close>, \<open>1e-05\<close>) belongs to the
  language runtime, so the printer of numbers is a parameter \<open>str_num\<close> of every
  function that calls \<^verbatim>\<open>str\<close> on a cell.
\<close>

definition py_str :: "(rat \<Rightarrow> string) \<Rightarrow> cell \<Rightarrow> string" where
  "py_str str_num c = (case c of NaN \<Rightarrow> ''nan'' | Str s \<Rightarrow> s | Num r \<Rightarrow> str_num r)"

text \<open>
  Python's \<^verbatim>\<open>str\<close> on an integer, the printer used in the closed examples below
  (they hold whole numbers only).
\<close>

fun nat_digits :: "nat \<Rightarrow> string" where
  "nat_digits n =
     (if n < 10 then [char_of (48 + n)]
      else nat_digits (n div 10) @ [char_of (48 + n mod 10)])"

declare nat_digits.simps [simp del]

definition str_int :: "int \<Rightarrow> string" where
  "str_int i = (if i < 0 then CHR ''-'' # nat_digits (nat (- i)) else nat_digits (nat i))"

definition str_whole :: "rat \<Rightarrow> string" where
  "str_whole r = str_int \<lfloor>r\<rfloor>"

subsection \<open>Characters and strings\<close>

text \<open>\<^verbatim>\<open>str.isspace\<close> and the regular expression class \<^verbatim>\<open>\s\<close>: tab, line feed,
  vertical tab, form feed, carriage return, the four separators \<open>0x1c\<close> to \<open>0x1f\<close>
  and the space.\<close>

definition isspace :: "char \<Rightarrow> bool" where
  "isspace c = (let n = (of_char c :: nat) in (9 \<le> n \<and> n \<le> 13) \<or> (28 \<le> n \<and> n \<le> 32))"

text \<open>The regular expression class \<^verbatim>\<open>\d\<close>.\<close>

definition isdigit :: "char \<Rightarrow> bool" where
  "isdigit c = (let n = (of_char c :: nat) in 48 \<le> n \<and> n \<le> 57)"

definition isalpha_char :: "char \<Rightarrow> bool" where
  "isalpha_char c =
     (let n = (of_char c :: nat) in (65 \<le> n \<and> n \<le> 90) \<or> (97 \<le> n \<and> n \<le> 122))"

text \<open>\<^verbatim>\<open>str.isalpha\<close>: every character is a letter and there is at least one.\<close>

definition isalpha :: "string \<Rightarrow> bool" where
  "isalpha s = (s \<noteq> [] \<and> list_all isalpha_char s)"

definition upper_char :: "char \<Rightarrow> char" where
  "upper_char c =
     (let n = (of_char c :: nat) in if 97 \<le> n \<and> n \<le> 122 then char_of (n - 32) else c)"

definition lower_char :: "char \<Rightarrow> char" where
  "lower_char c =
     (let n = (of_char c :: nat) in if 65 \<le> n \<and> n \<le> 90 then char_of (n + 32) else c)"

definition upper :: "string \<Rightarrow> string" where
  "upper s = map upper_char s"

definition lower :: "string \<Rightarrow> string" where
  "lower s = map lower_char s"

text \<open>\<^verbatim>\<open>str.strip()\<close>: whitespace is removed at both ends.\<close>

definition strip :: "string \<Rightarrow> string" where
  "strip s = rev (dropWhile isspace (rev (dropWhile isspace s)))"

text \<open>\<^verbatim>\<open>s.replace(old, new)\<close> for a one-character \<open>old\<close>.\<close>

definition replace :: "char \<Rightarrow> string \<Rightarrow> string \<Rightarrow> string" where
  "replace old new s = concat (map (\<lambda>c. if c = old then new else [c]) s)"

text \<open>\<^verbatim>\<open>re.sub(r'\s+', ' ', s)\<close>: every maximal run of whitespace becomes one space.\<close>

function sub_spaces :: "string \<Rightarrow> string" where
  "sub_spaces [] = []"
| "sub_spaces (c # cs) =
     (if isspace c then CHR '' '' # sub_spaces (dropWhile isspace cs)
      else c # sub_spaces cs)"
  by pat_completeness auto
termination
  by (relation "measure length") (auto simp: less_Suc_eq_le length_dropWhile_le)

section \<open>The logger\<close>

text \<open>
  The module logs through one global \<^verbatim>\<open>logger\<close>. The model keeps the records of
  level WARNING and ERROR, in the order they are logged; the INFO records are progress
  lines and are left out. A record is its level and its message, the message as a
  constructor holding what the source formats into the text.
\<close>

datatype level = WARNING | ERROR

datatype py_exception = KeyError string | TypeError | IndexError | AttributeError

datatype message =
    Empty_country_field
  | Unknown_country_format cell
  | Input_file_does_not_exist string
  | Unsupported_file_format string
  | Failed_to_load_file
  | Failed_to_clean_data py_exception
  | Found_incorrect_declared_values nat
  | Failed_to_calculate_declared_values py_exception
  | Found_address_validation_errors nat
  | Failed_to_validate_addresses py_exception
  | Failed_to_split_data py_exception
  | Failed_to_save_files py_exception
  | Errors_found_check_report nat
  | Validation_errors_review_required nat

type_synonym log_record = "level \<times> message"

section \<open>CountryCodeMapper\<close>

definition COUNTRY_CODES :: "(string \<times> string) list" where
  "COUNTRY_CODES = [
    (''UNITED STATES'', ''US''), (''USA'', ''US''), (''U.S.A'', ''US''), (''U.S.'', ''US''),
    (''CANADA'', ''CA''), (''MEXICO'', ''MX''),
    (''UNITED KINGDOM'', ''GB''), (''UK'', ''GB''), (''GREAT BRITAIN'', ''GB''),
    (''ENGLAND'', ''GB''), (''SCOTLAND'', ''GB''), (''WALES'', ''GB''),
    (''NORTHERN IRELAND'', ''GB''),
    (''FRANCE'', ''FR''), (''GERMANY'', ''DE''), (''SPAIN'', ''ES''), (''ITALY'', ''IT''),
    (''NETHERLANDS'', ''NL''), (''HOLLAND'', ''NL''), (''BELGIUM'', ''BE''),
    (''SWITZERLAND'', ''CH''),
    (''AUSTRIA'', ''AT''), (''SWEDEN'', ''SE''), (''NORWAY'', ''NO''), (''DENMARK'', ''DK''),
    (''FINLAND'', ''FI''), (''IRELAND'', ''IE''), (''PORTUGAL'', ''PT''), (''GREECE'', ''GR''),
    (''POLAND'', ''PL''), (''CZECH REPUBLIC'', ''CZ''), (''HUNGARY'', ''HU''),
    (''ROMANIA'', ''RO''),
    (''AUSTRALIA'', ''AU''), (''NEW ZEALAND'', ''NZ''), (''JAPAN'', ''JP''), (''CHINA'', ''CN''),
    (''SOUTH KOREA'', ''KR''), (''KOREA'', ''KR''), (''SINGAPORE'', ''SG''),
    (''HONG KONG'', ''HK''),
    (''TAIWAN'', ''TW''), (''THAILAND'', ''TH''), (''MALAYSIA'', ''MY''),
    (''INDONESIA'', ''ID''),
    (''PHILIPPINES'', ''PH''), (''VIETNAM'', ''VN''), (''INDIA'', ''IN''),
    (''ISRAEL'', ''IL''), (''SAUDI ARABIA'', ''SA''), (''UAE'', ''AE''),
    (''UNITED ARAB EMIRATES'', ''AE''), (''DUBAI'', ''AE''),
    (''BRAZIL'', ''BR''), (''ARGENTINA'', ''AR''), (''CHILE'', ''CL''), (''COLOMBIA'', ''CO''),
    (''PERU'', ''PE''), (''VENEZUELA'', ''VE''),
    (''SOUTH AFRICA'', ''ZA''), (''EGYPT'', ''EG''), (''MOROCCO'', ''MA''), (''KENYA'', ''KE'')]"

text \<open>
  \<^verbatim>\<open>standardize_country\<close> returns the code; the second component is what it logs.
  It has no access to the splitter's \<^verbatim>\<open>validation_warnings\<close>.
\<close>

definition standardize_country :: "(rat \<Rightarrow> string) \<Rightarrow> cell \<Rightarrow> string \<times> log_record list" where
  "standardize_country str_num country =
     (if isna country \<or> falsy country then (''XX'', [(WARNING, Empty_country_field)])
      else
        let country_clean = upper (strip (py_str str_num country)) in
        if length country_clean = 2 \<and> isalpha country_clean then (country_clean, [])
        else
          (case map_of COUNTRY_CODES country_clean of
            Some code \<Rightarrow> (code, [])
          | None \<Rightarrow>
              (if length country_clean \<ge> 2 then take 2 country_clean else ''XX'',
               [(WARNING, Unknown_country_format country)])))"

section \<open>DataCleaner\<close>

definition remove_commas :: "(rat \<Rightarrow> string) \<Rightarrow> cell \<Rightarrow> string" where
  "remove_commas str_num text =
     (if isna text then [] else replace CHR '','' [] (py_str str_num text))"

definition clean_text_field :: "(rat \<Rightarrow> string) \<Rightarrow> cell \<Rightarrow> string" where
  "clean_text_field str_num text =
     (if isna text then []
      else
        let text1 = py_str str_num text;
            text2 = replace CHR '','' [] text1;
            text3 = replace CHR 0x0D '' '' (replace CHR 0x0A '' '' text2);
            text4 = replace CHR 0x09 '' '' text3;
            text5 = sub_spaces text4
        in strip text5)"

text \<open>\<^verbatim>\<open>re.sub(r'[^\d+]', '', phone)\<close> deletes every character that is neither a
  digit nor a plus sign.\<close>

definition clean_phone_number :: "(rat \<Rightarrow> string) \<Rightarrow> cell \<Rightarrow> string" where
  "clean_phone_number str_num phone =
     (if isna phone then []
      else filter (\<lambda>c. isdigit c \<or> c = CHR ''+'') (py_str str_num phone))"

definition clean_postal_code :: "(rat \<Rightarrow> string) \<Rightarrow> cell \<Rightarrow> string" where
  "clean_postal_code str_num postal =
     (if isna postal then []
      else sub_spaces (strip (upper (py_str str_num postal))))"

text \<open>
  The form of a text whose whitespace is cleaned: every whitespace character is a
  space, and the character after it, if there is one, is not whitespace.
\<close>

fun collapsed :: "string \<Rightarrow> bool" where
  "collapsed [] = True"
| "collapsed (c # cs) =
     ((if isspace c then c = CHR '' '' \<and> (cs = [] \<or> \<not> isspace (hd cs)) else True) \<and> collapsed cs)"

section \<open>The loaded table\<close>

text \<open>
  A pandas \<open>DataFrame\<close> is the list of its columns in order, each the column's name
  and its cells; row \<open>i\<close> is the \<open>i\<close>-th cell of every column, and the index of the
  rows is \<open>0, 1, 2, ...\<close> as \<^verbatim>\<open>read_csv\<close> and \<^verbatim>\<open>read_excel\<close> number them. A table as
  pandas loads it has columns of one length and distinct names.
\<close>

type_synonym dataframe = "(string \<times> cell list) list"

definition wf_table :: "dataframe \<Rightarrow> bool" where
  "wf_table d =
     (distinct (map fst d) \<and>
      list_all (\<lambda>c. list_all (\<lambda>c'. length (snd c) = length (snd c')) d) d)"

text \<open>\<^verbatim>\<open>len(df)\<close>.\<close>

definition nrows :: "dataframe \<Rightarrow> nat" where
  "nrows d = (case d of [] \<Rightarrow> 0 | (k, cs) # rest \<Rightarrow> length cs)"

text \<open>\<^verbatim>\<open>df[col]\<close> raises \<open>KeyError\<close> when there is no such column.\<close>

definition get_column :: "string \<Rightarrow> dataframe \<Rightarrow> py_exception + cell list" where
  "get_column col d = (case map_of d col of None \<Rightarrow> Inl (KeyError col) | Some cs \<Rightarrow> Inr cs)"

text \<open>\<^verbatim>\<open>df[col] = values\<close> replaces the column where it stands, or appends a new one.\<close>

fun set_column :: "string \<Rightarrow> cell list \<Rightarrow> dataframe \<Rightarrow> dataframe" where
  "set_column col vs [] = [(col, vs)]"
| "set_column col vs ((k, cs) # d) =
     (if k = col then (k, vs) # d else (k, cs) # set_column col vs d)"

text \<open>\<^verbatim>\<open>if col in df.columns: df[col] = df[col].apply(f)\<close>.\<close>

definition apply_column :: "(cell \<Rightarrow> cell) \<Rightarrow> string \<Rightarrow> dataframe \<Rightarrow> dataframe" where
  "apply_column f col d = map (\<lambda>(k, cs). if k = col then (k, map f cs) else (k, cs)) d"

text \<open>\<^verbatim>\<open>df.drop(columns=names)\<close>, for names that are columns.\<close>

definition drop_columns :: "string list \<Rightarrow> dataframe \<Rightarrow> dataframe" where
  "drop_columns names d = filter (\<lambda>(k, cs). k \<notin> set names) d"

text \<open>\<^verbatim>\<open>df.iloc[:, a:b]\<close>: a slice by position takes the columns that exist and never
  raises.\<close>

definition iloc_columns :: "nat \<Rightarrow> nat \<Rightarrow> dataframe \<Rightarrow> dataframe" where
  "iloc_columns a b d = take (b - a) (drop a d)"

text \<open>A row as \<^verbatim>\<open>row.get(field)\<close> reads it: \<open>None\<close> when the table has no such column.\<close>

type_synonym row = "string \<Rightarrow> cell option"

definition row_at :: "dataframe \<Rightarrow> nat \<Rightarrow> row" where
  "row_at d i = (\<lambda>field. map_option (\<lambda>cs. cs ! i) (map_of d field))"

text \<open>Elementwise \<^verbatim>\<open>==\<close>: a missing value equals nothing, itself included.\<close>

definition cell_eq :: "cell \<Rightarrow> cell \<Rightarrow> bool" where
  "cell_eq a b = (a \<noteq> NaN \<and> b \<noteq> NaN \<and> a = b)"

text \<open>\<^verbatim>\<open>Series.unique()\<close>: the distinct values in the order of their first
  appearance, all missing values counting as one.\<close>

definition unique :: "cell list \<Rightarrow> cell list" where
  "unique cs = rev (remdups (rev cs))"

text \<open>\<^verbatim>\<open>Series.nunique()\<close> does not count the missing value.\<close>

definition nunique :: "cell list \<Rightarrow> nat" where
  "nunique cs = length (remdups (filter (\<lambda>c. c \<noteq> NaN) cs))"

primrec first_index :: "('a \<Rightarrow> bool) \<Rightarrow> 'a list \<Rightarrow> nat option" where
  "first_index P [] = None"
| "first_index P (x # xs) =
     (if P x then Some 0 else map_option Suc (first_index P xs))"

subsection \<open>Arithmetic on cells\<close>

text \<open>
  Arithmetic with a missing value gives a missing value, and every comparison with one
  is false. A \<open>str\<close> in a column of the reconciliation ends in a \<open>TypeError\<close>, at the
  product or at the difference taken next; \<open>None\<close> stands for it.
\<close>

definition cell_mul :: "cell \<Rightarrow> cell \<Rightarrow> cell option" where
  "cell_mul a b =
     (case (a, b) of
        (Num x, Num y) \<Rightarrow> Some (Num (x * y))
      | (Str s, _) \<Rightarrow> None
      | (_, Str s) \<Rightarrow> None
      | _ \<Rightarrow> Some NaN)"

definition cell_sub :: "cell \<Rightarrow> cell \<Rightarrow> cell option" where
  "cell_sub a b =
     (case (a, b) of
        (Num x, Num y) \<Rightarrow> Some (Num (x - y))
      | (Str s, _) \<Rightarrow> None
      | (_, Str s) \<Rightarrow> None
      | _ \<Rightarrow> Some NaN)"

definition tolerance :: rat where
  "tolerance = 1 / 100"

text \<open>\<^verbatim>\<open>(value - calculated).abs() > tolerance\<close> for one row.\<close>

definition value_mismatch :: "cell \<Rightarrow> cell \<Rightarrow> bool option" where
  "value_mismatch v c =
     (case cell_sub v c of
        None \<Rightarrow> None
      | Some (Num x) \<Rightarrow> Some (\<bar>x\<bar> > tolerance)
      | Some other \<Rightarrow> Some False)"

text \<open>\<^verbatim>\<open>Series.round(2)\<close>: to the nearest hundredth, a tie to the even one.\<close>

definition round_half_even :: "rat \<Rightarrow> int" where
  "round_half_even x =
     (let f = \<lfloor>x\<rfloor>; d = x - of_int f in
      if d < 1 / 2 then f else if d > 1 / 2 then f + 1 else if even f then f else f + 1)"

definition round2 :: "cell \<Rightarrow> cell option" where
  "round2 c =
     (case c of
        NaN \<Rightarrow> Some NaN
      | Num x \<Rightarrow> Some (Num (of_int (round_half_even (x * 100)) / 100))
      | Str s \<Rightarrow> None)"

section \<open>AddressValidator\<close>

text \<open>\<^verbatim>\<open>pd.isna(value) or str(value).strip() == ""\<close>, for what \<^verbatim>\<open>row.get\<close> returned.\<close>

definition is_blank :: "(rat \<Rightarrow> string) \<Rightarrow> cell option \<Rightarrow> bool" where
  "is_blank str_num v =
     (case v of None \<Rightarrow> True | Some c \<Rightarrow> isna c \<or> strip (py_str str_num c) = [])"

definition validate_required_fields :: "(rat \<Rightarrow> string) \<Rightarrow> row \<Rightarrow> string \<Rightarrow> bool \<times> string" where
  "validate_required_fields str_num r field_name =
     (if is_blank str_num (r field_name)
      then (False, ''Missing required field: '' @ field_name)
      else (True, []))"

abbreviation phone_col :: string where
  "phone_col \<equiv> ''RECIPIENT PHONE # (required)''"

abbreviation country_col :: string where
  "country_col \<equiv> ''COUNTRY (required)''"

definition required_fields :: "string list" where
  "required_fields =
     [''SHIP TO ATTENTION (required)'',
      ''SHIP TO ADDRESS LINE 1 (required)'',
      ''CITY (required)'',
      country_col,
      ''POSTAL CODE (required)'']"

text \<open>An entry of \<^verbatim>\<open>validation_errors\<close> or \<^verbatim>\<open>validation_warnings\<close>:
  \<^item> \<open>Ref ref text\<close> is the string \<^verbatim>\<open>Ref#{ref}: {text}\<close>;
  \<^item> \<open>Declared_value_corrected ref row old new\<close> is the string
    \<^verbatim>\<open>Ref#{ref} Row{row}: Declared value corrected {old:.2f} -> {new:.2f}\<close>.\<close>

datatype issue =
    Ref cell string
  | Declared_value_corrected cell nat cell cell

definition validate_address :: "(rat \<Rightarrow> string) \<Rightarrow> row \<Rightarrow> cell \<Rightarrow> bool \<times> issue list" where
  "validate_address str_num r ref_num =
     (let errors =
            concat (map (\<lambda>field.
              case validate_required_fields str_num r field of
                (is_valid, error) \<Rightarrow> if \<not> is_valid then [Ref ref_num error] else [])
              required_fields);
          errors =
            errors @ (if is_blank str_num (r phone_col)
                      then [Ref ref_num ''Missing phone number''] else [])
      in (errors = [], errors))"

section \<open>FedExCSVSplitterEnhanced\<close>

text \<open>
  What a run reads from outside: whether the input file exists, what
  \<^verbatim>\<open>pd.read_csv\<close> and \<^verbatim>\<open>pd.read_excel\<close> return for it (\<open>None\<close> when the call
  raises), and the printer of numbers.
\<close>

record environment =
  number_str :: "rat \<Rightarrow> string"
  file_exists :: bool
  read_csv :: "dataframe option"
  read_excel :: "dataframe option"

record report =
  report_input_file :: string
  total_rows :: nat
  unique_recipients :: nat
  report_errors :: "issue list"
  report_warnings :: "issue list"

text \<open>
  A file of the output directory: a table written by \<^verbatim>\<open>to_csv\<close> (the text of the
  file is not modelled), the validation report, or a report file that was opened and
  left unfinished by an exception.
\<close>

datatype output_file = Csv dataframe | Report report | Unfinished_report

text \<open>
  The splitter object. \<open>input_file\<close> is the name of the file, the last component of
  its path. The last two fields are not attributes of the object: \<open>log\<close> holds the
  records the logger has emitted and \<open>written\<close> the files written to the output
  directory, both in order.
\<close>

record splitter =
  input_file :: string
  df :: "dataframe option"
  recipient_df :: "dataframe option"
  commodity_df :: "dataframe option"
  validation_errors :: "issue list"
  validation_warnings :: "issue list"
  log :: "log_record list"
  written :: "(string \<times> output_file) list"

definition init :: "string \<Rightarrow> splitter" where
  "init name =
     \<lparr>input_file = name, df = None, recipient_df = None, commodity_df = None,
      validation_errors = [], validation_warnings = [], log = [], written = []\<rparr>"

definition logged :: "log_record list \<Rightarrow> splitter \<Rightarrow> splitter" where
  "logged records st = st\<lparr>log := log st @ records\<rparr>"

subsection \<open>validate_input_file and load_data\<close>

text \<open>\<^verbatim>\<open>Path.suffix\<close>: the name from its last dot on, unless that dot is the first or
  the last character of the name.\<close>

definition rfind :: "char \<Rightarrow> string \<Rightarrow> nat option" where
  "rfind c s =
     (if c \<in> set s then Some (length s - 1 - length (takeWhile (\<lambda>x. x \<noteq> c) (rev s)))
      else None)"

definition suffix :: "string \<Rightarrow> string" where
  "suffix name =
     (case rfind CHR ''.'' name of
        None \<Rightarrow> []
      | Some i \<Rightarrow> if 0 < i \<and> i < length name - 1 then drop i name else [])"

definition valid_extensions :: "string list" where
  "valid_extensions = [''.xlsx'', ''.xls'', ''.csv'']"

definition validate_input_file :: "environment \<Rightarrow> splitter \<Rightarrow> bool \<times> splitter" where
  "validate_input_file env st =
     (if \<not> file_exists env
      then (False, logged [(ERROR, Input_file_does_not_exist (input_file st))] st)
      else if lower (suffix (input_file st)) \<notin> set valid_extensions
      then (False, logged [(ERROR, Unsupported_file_format (suffix (input_file st)))] st)
      else (True, st))"

definition load_data :: "environment \<Rightarrow> splitter \<Rightarrow> bool \<times> splitter" where
  "load_data env st =
     (case (if lower (suffix (input_file st)) = ''.csv'' then read_csv env
            else read_excel env) of
        None \<Rightarrow> (False, logged [(ERROR, Failed_to_load_file)] st)
      | Some d \<Rightarrow> (True, st\<lparr>df := Some d\<rparr>))"

subsection \<open>clean_data\<close>

definition text_columns :: "string list" where
  "text_columns =
     [''SHIP TO ATTENTION (required)'',
      ''RECIPIENT EMAIL (if applicable)'',
      ''COMPANY NAME (if applicable)'',
      ''SHIP TO ADDRESS LINE 1 (required)'',
      ''SHIP TO ADDRESS LINE 2 (if applicable)'',
      ''CITY (required)'',
      ''STATE / PROVINCE (if applicable)'',
      ''BILLING - 3RD PARTY COMPANY NAME (required)'',
      ''BILLING - 3RD PARTY ADDRESS 1 (required)'',
      ''BILLING - 3RD PARTY ADDRESS 2 (if applicable)'',
      ''BILLING - 3RD PARTY CITY (required)'',
      ''ITEM DESCRIPTION (required)'',
      ''STYLE # (required)'']"

definition postal_cols :: "string list" where
  "postal_cols = [''POSTAL CODE (required)'', ''BILLING - 3RD PARTY POSTAL CODE (required)'']"

text \<open>The country column: every cell is standardized, in the order of the rows; the
  result is the new table and what the calls have logged.\<close>

definition standardize_countries :: "(rat \<Rightarrow> string) \<Rightarrow> dataframe \<Rightarrow> dataframe \<times> log_record list" where
  "standardize_countries str_num d =
     (case map_of d country_col of
        None \<Rightarrow> (d, [])
      | Some original_countries \<Rightarrow>
          (let results = map (standardize_country str_num) original_countries in
           (set_column country_col (map (\<lambda>r. Str (fst r)) results) d,
            concat (map snd results))))"

definition clean_data :: "environment \<Rightarrow> splitter \<Rightarrow> bool \<times> splitter" where
  "clean_data env st =
     (case df st of
        None \<Rightarrow> (False, logged [(ERROR, Failed_to_clean_data AttributeError)] st)
      | Some d \<Rightarrow>
          (let str_num = number_str env;
               d1 = fold (apply_column (\<lambda>c. Str (clean_text_field str_num c))) text_columns d;
               d2 = apply_column (\<lambda>c. Str (clean_phone_number str_num c)) phone_col d1;
               d3 = fold (apply_column (\<lambda>c. Str (clean_postal_code str_num c))) postal_cols d2;
               (d4, records) = standardize_countries str_num d3
           in (True, logged records (st\<lparr>df := Some d4\<rparr>))))"

subsection \<open>calculate_declared_values\<close>

abbreviation qty_col :: string where
  "qty_col \<equiv> ''QUANTITY (required)''"

abbreviation price_col :: string where
  "price_col \<equiv> ''UNIT PRICE (required)''"

abbreviation value_col :: string where
  "value_col \<equiv> ''DECLARED VALUE (required)''"

abbreviation ref_col :: string where
  "ref_col \<equiv> ''REFERENCE # (Recipient 1, 2, etc.)''"

definition temp_columns :: "string list" where
  "temp_columns = [''_calculated_value'', ''_value_mismatch'']"

text \<open>The loop over \<^verbatim>\<open>mismatches.iterrows()\<close>: one warning for each row whose
  mismatch flag is set, in the order of the rows; \<open>idx\<close> is the index of the row.\<close>

fun mismatch_warnings ::
  "nat \<Rightarrow> bool list \<Rightarrow> cell list \<Rightarrow> cell list \<Rightarrow> cell list \<Rightarrow> issue list" where
  "mismatch_warnings idx (m # ms) (r # rs) (v # vs) (c # cs) =
     (if m then [Declared_value_corrected r (idx + 2) v c] else []) @
     mismatch_warnings (Suc idx) ms rs vs cs"
| "mismatch_warnings idx ms rs vs cs = []"

text \<open>
  The body of the \<^verbatim>\<open>try\<close> block, on the table and the warnings so far. It returns
  the exception that ends it, or the new table and warnings, in both cases with the
  warning records logged before. The two temporary columns are the lists
  \<open>calculated\<close> and \<open>mismatch\<close>; the final \<^verbatim>\<open>drop\<close> removes them from the table.
\<close>

definition reconcile ::
  "dataframe \<Rightarrow> issue list \<Rightarrow> (py_exception + dataframe \<times> issue list) \<times> log_record list" where
  "reconcile d warnings =
     (case get_column qty_col d of Inl e \<Rightarrow> (Inl e, []) | Inr qty \<Rightarrow>
      case get_column price_col d of Inl e \<Rightarrow> (Inl e, []) | Inr price \<Rightarrow>
      case those (map2 cell_mul qty price) of None \<Rightarrow> (Inl TypeError, []) | Some calculated \<Rightarrow>
      case get_column value_col d of Inl e \<Rightarrow> (Inl e, []) | Inr declared \<Rightarrow>
      case those (map2 value_mismatch declared calculated) of
        None \<Rightarrow> (Inl TypeError, [])
      | Some mismatch \<Rightarrow>
          if length (filter id mismatch) > 0 then
            (let records = [(WARNING, Found_incorrect_declared_values (length (filter id mismatch)))] in
             case get_column ref_col d of
               Inl e \<Rightarrow> (Inl e, records)
             | Inr refs \<Rightarrow>
                 (Inr (drop_columns temp_columns (set_column value_col calculated d),
                       warnings @ mismatch_warnings 0 mismatch refs declared calculated),
                  records))
          else (Inr (drop_columns temp_columns d, warnings), []))"

text \<open>After an exception the table is left as it was before the step: the source may
  leave a temporary column in it, and nothing reads the table after a failed step.\<close>

definition calculate_declared_values :: "splitter \<Rightarrow> bool \<times> splitter" where
  "calculate_declared_values st =
     (case df st of
        None \<Rightarrow> (False, logged [(ERROR, Failed_to_calculate_declared_values TypeError)] st)
      | Some d \<Rightarrow>
          (case reconcile d (validation_warnings st) of
             (Inl e, records) \<Rightarrow>
               (False, logged (records @ [(ERROR, Failed_to_calculate_declared_values e)]) st)
           | (Inr (d', warnings'), records) \<Rightarrow>
               (True, logged records (st\<lparr>df := Some d', validation_warnings := warnings'\<rparr>))))"

subsection \<open>validate_addresses\<close>

text \<open>
  The loop over the unique reference numbers. \<open>refs\<close> is the reference column. The
  rows of a missing reference number are none, since it equals nothing: taking the
  first of them raises \<open>IndexError\<close>, and the loop stops with the errors it has
  collected.
\<close>

fun validate_refs ::
  "(rat \<Rightarrow> string) \<Rightarrow> dataframe \<Rightarrow> cell list \<Rightarrow> cell list \<Rightarrow> issue list \<Rightarrow> bool \<times> issue list" where
  "validate_refs str_num d refs [] errors = (True, errors)"
| "validate_refs str_num d refs (ref_num # rest) errors =
     (case first_index (\<lambda>r. cell_eq r ref_num) refs of
        None \<Rightarrow> (False, errors)
      | Some i \<Rightarrow>
          (case validate_address str_num (row_at d i) ref_num of
             (is_valid, errs) \<Rightarrow>
               validate_refs str_num d refs rest (if \<not> is_valid then errors @ errs else errors)))"

definition validate_addresses :: "environment \<Rightarrow> splitter \<Rightarrow> bool \<times> splitter" where
  "validate_addresses env st =
     (case df st of
        None \<Rightarrow> (False, logged [(ERROR, Failed_to_validate_addresses TypeError)] st)
      | Some d \<Rightarrow>
          (case get_column ref_col d of
             Inl e \<Rightarrow> (False, logged [(ERROR, Failed_to_validate_addresses e)] st)
           | Inr refs \<Rightarrow>
               (case validate_refs (number_str env) d refs (unique refs) (validation_errors st) of
                  (False, errors) \<Rightarrow>
                    (False, logged [(ERROR, Failed_to_validate_addresses IndexError)]
                              (st\<lparr>validation_errors := errors\<rparr>))
                | (True, errors) \<Rightarrow>
                    (True, logged (if errors \<noteq> []
                                   then [(WARNING, Found_address_validation_errors (length errors))]
                                   else [])
                             (st\<lparr>validation_errors := errors\<rparr>)))))"

subsection \<open>split_data\<close>

definition RECIPIENT_COLS_START :: nat where "RECIPIENT_COLS_START = 0"
definition RECIPIENT_COLS_END :: nat where "RECIPIENT_COLS_END = 21"
definition COMMODITY_COLS_START :: nat where "COMMODITY_COLS_START = 21"
definition COMMODITY_COLS_END :: nat where "COMMODITY_COLS_END = 31"

definition split_data :: "splitter \<Rightarrow> bool \<times> splitter" where
  "split_data st =
     (case df st of
        None \<Rightarrow> (False, logged [(ERROR, Failed_to_split_data AttributeError)] st)
      | Some d \<Rightarrow>
          (True, st\<lparr>recipient_df := Some (iloc_columns RECIPIENT_COLS_START RECIPIENT_COLS_END d),
                    commodity_df := Some (iloc_columns COMMODITY_COLS_START COMMODITY_COLS_END d)\<rparr>))"

subsection \<open>save_csvs and save_validation_report\<close>

definition OUTPUT_RECIPIENT_FILENAME :: string where
  "OUTPUT_RECIPIENT_FILENAME = ''IntFedExRec.csv''"

definition OUTPUT_COMMODITY_FILENAME :: string where
  "OUTPUT_COMMODITY_FILENAME = ''IntFedExCom.csv''"

definition OUTPUT_VALIDATION_REPORT :: string where
  "OUTPUT_VALIDATION_REPORT = ''validation_report.txt''"

definition numeric_cols :: "string list" where
  "numeric_cols = [price_col, value_col]"

text \<open>\<^verbatim>\<open>if col in df.columns: df[col] = df[col].round(2)\<close>; rounding a column that
  holds a \<open>str\<close> raises.\<close>

definition round_column :: "string \<Rightarrow> dataframe \<Rightarrow> dataframe option" where
  "round_column col d =
     (case map_of d col of
        None \<Rightarrow> Some d
      | Some cs \<Rightarrow> map_option (\<lambda>rounded. set_column col rounded d) (those (map round2 cs)))"

fun round_columns :: "string list \<Rightarrow> dataframe \<Rightarrow> dataframe option" where
  "round_columns [] d = Some d"
| "round_columns (col # cols) d =
     (case round_column col d of None \<Rightarrow> None | Some d' \<Rightarrow> round_columns cols d')"

text \<open>
  \<^verbatim>\<open>save_validation_report\<close> opens the report file and writes it line by line; an
  exception while the counts are formatted leaves the file unfinished. Writing itself
  is taken to succeed.
\<close>

definition save_validation_report :: "splitter \<Rightarrow> py_exception + splitter" where
  "save_validation_report st =
     (case df st of
        None \<Rightarrow> Inl TypeError
      | Some d \<Rightarrow>
          (case get_column ref_col d of
             Inl e \<Rightarrow> Inl e
           | Inr refs \<Rightarrow>
               Inr (logged (if validation_errors st \<noteq> []
                            then [(WARNING, Errors_found_check_report (length (validation_errors st)))]
                            else [])
                      (st\<lparr>written := written st @
                          [(OUTPUT_VALIDATION_REPORT,
                            Report \<lparr>report_input_file = input_file st,
                                    total_rows = nrows d,
                                    unique_recipients = nunique refs,
                                    report_errors = validation_errors st,
                                    report_warnings = validation_warnings st\<rparr>)]\<rparr>))))"

definition report_failed :: "splitter \<Rightarrow> splitter" where
  "report_failed st = st\<lparr>written := written st @ [(OUTPUT_VALIDATION_REPORT, Unfinished_report)]\<rparr>"

definition save_csvs :: "splitter \<Rightarrow> bool \<times> splitter" where
  "save_csvs st =
     (case commodity_df st of
        None \<Rightarrow> (False, logged [(ERROR, Failed_to_save_files AttributeError)] st)
      | Some com \<Rightarrow>
      case round_columns numeric_cols com of
        None \<Rightarrow> (False, logged [(ERROR, Failed_to_save_files TypeError)] st)
      | Some com' \<Rightarrow>
      case recipient_df st of
        None \<Rightarrow>
          (False, logged [(ERROR, Failed_to_save_files AttributeError)]
                    (st\<lparr>commodity_df := Some com'\<rparr>))
      | Some rec \<Rightarrow>
          (let st1 = st\<lparr>commodity_df := Some com',
                         written := written st @
                           [(OUTPUT_RECIPIENT_FILENAME, Csv rec),
                            (OUTPUT_COMMODITY_FILENAME, Csv com')]\<rparr>
           in case save_validation_report st1 of
                Inl e \<Rightarrow> (False, logged [(ERROR, Failed_to_save_files e)] (report_failed st1))
              | Inr st2 \<Rightarrow> (True, st2)))"

subsection \<open>process\<close>

definition process :: "environment \<Rightarrow> splitter \<Rightarrow> bool \<times> splitter" where
  "process env st =
     (case validate_input_file env st of (ok1, st1) \<Rightarrow> if \<not> ok1 then (False, st1) else
      case load_data env st1 of (ok2, st2) \<Rightarrow> if \<not> ok2 then (False, st2) else
      case clean_data env st2 of (ok3, st3) \<Rightarrow> if \<not> ok3 then (False, st3) else
      case calculate_declared_values st3 of (ok4, st4) \<Rightarrow> if \<not> ok4 then (False, st4) else
      case validate_addresses env st4 of (ok5, st5) \<Rightarrow> if \<not> ok5 then (False, st5) else
      case split_data st5 of (ok6, st6) \<Rightarrow> if \<not> ok6 then (False, st6) else
      case save_csvs st6 of (success, st7) \<Rightarrow>
        if success
        then (True, logged (if validation_errors st7 \<noteq> []
                            then [(WARNING, Validation_errors_review_required
                                              (length (validation_errors st7)))]
                            else []) st7)
        else (False, st7))"

section \<open>Properties of columns\<close>

text \<open>A cell that holds a number.\<close>

definition is_number :: "cell \<Rightarrow> bool" where
  "is_number c = (case c of Num x \<Rightarrow> True | other \<Rightarrow> False)"


section \<open>Example inputs\<close>

text \<open>
  A manifest of 31 columns and two rows, both commodity lines of shipment 1. The
  first row is the example of the specification: country \<open>England\<close>, quantity 2 at
  unit price 5.00 with declared value 9.00. The second row declares \<open>129/128\<close> for one
  item at unit price 1, within the tolerance. The source names 21 of the columns; the
  other ten stand in their places as \<open>COLUMN n\<close>.
\<close>

definition manifest31 :: dataframe where
  "manifest31 =
     [(ref_col, [Num 1, Num 1]),
      (''SHIP TO ATTENTION (required)'', [Str ''Ann Lee'', Str ''Ann Lee'']),
      (''RECIPIENT EMAIL (if applicable)'', [NaN, NaN]),
      (''COMPANY NAME (if applicable)'', [NaN, NaN]),
      (''SHIP TO ADDRESS LINE 1 (required)'', [Str ''1 High St'', Str ''1 High St'']),
      (''SHIP TO ADDRESS LINE 2 (if applicable)'', [NaN, NaN]),
      (''CITY (required)'', [Str ''London'', Str ''London'']),
      (''STATE / PROVINCE (if applicable)'', [NaN, NaN]),
      (country_col, [Str ''England'', Str ''England'']),
      (''POSTAL CODE (required)'', [Str '' n1 2ab '', Str '' n1 2ab '']),
      (phone_col, [Str ''(555) 123-4567'', Str ''(555) 123-4567'']),
      (''BILLING - 3RD PARTY COMPANY NAME (required)'', [Str ''Acme'', Str ''Acme'']),
      (''BILLING - 3RD PARTY ADDRESS 1 (required)'', [Str ''2 Low St'', Str ''2 Low St'']),
      (''BILLING - 3RD PARTY ADDRESS 2 (if applicable)'', [NaN, NaN]),
      (''BILLING - 3RD PARTY CITY (required)'', [Str ''Reno'', Str ''Reno'']),
      (''BILLING - 3RD PARTY POSTAL CODE (required)'', [Str ''89501'', Str ''89501'']),
      (''COLUMN 17'', [NaN, NaN]),
      (''COLUMN 18'', [NaN, NaN]),
      (''COLUMN 19'', [NaN, NaN]),
      (''COLUMN 20'', [NaN, NaN]),
      (''COLUMN 21'', [NaN, NaN]),
      (''ITEM DESCRIPTION (required)'', [Str ''T-shirt'', Str ''Sticker'']),
      (''STYLE # (required)'', [Str ''A1'', Str ''B2'']),
      (qty_col, [Num 2, Num 1]),
      (price_col, [Num 5, Num 1]),
      (value_col, [Num 9, Num (129 / 128)]),
      (''COLUMN 27'', [NaN, NaN]),
      (''COLUMN 28'', [NaN, NaN]),
      (''COLUMN 29'', [NaN, NaN]),
      (''COLUMN 30'', [NaN, NaN]),
      (''COLUMN 31'', [NaN, NaN])]"


text \<open>A file \<open>name\<close> that exists and that pandas reads as the table \<open>d\<close>.\<close>

definition file_with :: "dataframe \<Rightarrow> environment" where
  "file_with d =
     \<lparr>number_str = str_whole, file_exists = True, read_csv = Some d, read_excel = Some d\<rparr>"

text \<open>The splitter after \<^verbatim>\<open>load_data\<close> has read the table \<open>d\<close> from \<open>shipments.csv\<close>.\<close>

definition loaded :: "dataframe \<Rightarrow> splitter" where
  "loaded d = (init ''shipments.csv'')\<lparr>df := Some d\<rparr>"

text \<open>A complete recipient row, as \<^verbatim>\<open>row.get\<close> reads it.\<close>

definition complete_row :: row where
  "complete_row = row_at manifest31 0"

text \<open>The manifest with the declared value of its first row missing: once beside a
  second row that is within the tolerance, once beside a second row that is not.\<close>

definition manifest_missing_value :: dataframe where
  "manifest_missing_value = set_column value_col [NaN, Num 1] manifest31"

definition manifest_missing_value_mismatch :: dataframe where
  "manifest_missing_value_mismatch = set_column value_col [NaN, Num 3] manifest31"

text \<open>The manifest with consistent declared values and no country in either row, and
  with an unknown country name in the second row.\<close>

definition manifest_no_country :: dataframe where
  "manifest_no_country =
     set_column country_col [NaN, NaN] (set_column value_col [Num 10, Num 1] manifest31)"

definition manifest_unknown_country :: dataframe where
  "manifest_unknown_country =
     set_column country_col [NaN, Str ''Atlantis''] (set_column value_col [Num 10, Num 1] manifest31)"



section \<open>Strings: whitespace and the cleaned form\<close>

lemma isspace_space: "isspace CHR '' ''"
  by (simp add: isspace_def)

lemma sub_spaces_hd:
  "t = [] \<or> \<not> isspace (hd t) \<Longrightarrow> sub_spaces t = [] \<or> \<not> isspace (hd (sub_spaces t))"
  by (cases t) auto

lemma dropWhile_hd: "dropWhile P xs = [] \<or> \<not> P (hd (dropWhile P xs))"
  using hd_dropWhile [of P xs] by blast

lemma collapsed_sub_spaces: "collapsed (sub_spaces s)"
proof (induction s rule: sub_spaces.induct)
  case 1
  show ?case by simp
next
  case (2 c cs)
  show ?case
  proof (cases "isspace c")
    case True
    have "sub_spaces (dropWhile isspace cs) = [] \<or> \<not> isspace (hd (sub_spaces (dropWhile isspace cs)))"
      by (rule sub_spaces_hd) (rule dropWhile_hd)
    with True 2 show ?thesis by (simp add: isspace_space)
  next
    case False
    with 2 show ?thesis by simp
  qed
qed

lemma sub_spaces_collapsed: "collapsed s \<Longrightarrow> sub_spaces s = s"
proof (induction s)
  case Nil
  show ?case by simp
next
  case (Cons c cs)
  then have cs: "sub_spaces cs = cs" by simp
  show ?case
  proof (cases "isspace c")
    case True
    with Cons.prems have c: "c = CHR '' ''" and h: "cs = [] \<or> \<not> isspace (hd cs)" by auto
    from h have "dropWhile isspace cs = cs" by (cases cs) auto
    with True c cs show ?thesis by simp
  next
    case False
    with cs show ?thesis by simp
  qed
qed

lemma collapsed_append: "collapsed (xs @ ys) \<Longrightarrow> collapsed xs \<and> collapsed ys"
  by (induction xs) (auto split: if_splits)

lemma collapsed_dropWhile: "collapsed s \<Longrightarrow> collapsed (dropWhile P s)"
  using collapsed_append [of "takeWhile P s" "dropWhile P s"] by simp

lemma collapsed_rstrip: "collapsed s \<Longrightarrow> collapsed (rev (dropWhile P (rev s)))"
proof -
  assume a: "collapsed s"
  have "rev (dropWhile P (rev s)) @ rev (takeWhile P (rev s)) = s"
    by (metis rev_append rev_rev_ident takeWhile_dropWhile_id)
  with a collapsed_append [of "rev (dropWhile P (rev s))" "rev (takeWhile P (rev s))"]
  show ?thesis by simp
qed

lemma collapsed_strip: "collapsed s \<Longrightarrow> collapsed (strip s)"
  by (simp add: strip_def collapsed_dropWhile collapsed_rstrip)

lemma strip_strip: "strip (strip s) = strip s"
proof -
  define t where "t = dropWhile isspace s"
  define u where "u = rev (dropWhile isspace (rev t))"
  have tu: "u @ rev (takeWhile isspace (rev t)) = t"
    unfolding u_def by (metis rev_append rev_rev_ident takeWhile_dropWhile_id)
  have t: "t = [] \<or> \<not> isspace (hd t)" unfolding t_def by (rule dropWhile_hd)
  have "u = [] \<or> \<not> isspace (hd u)"
  proof (cases u)
    case Nil then show ?thesis by simp
  next
    case (Cons a as)
    with tu have "hd t = a" by (metis hd_append2 list.sel(1) list.distinct(1))
    moreover from Cons tu have "t \<noteq> []" by auto
    ultimately show ?thesis using t Cons by simp
  qed
  then have "dropWhile isspace u = u" by (cases u) auto
  moreover have "rev (dropWhile isspace (rev u)) = u"
    unfolding u_def by (simp add: dropWhile_idem)
  ultimately show ?thesis by (simp add: strip_def t_def u_def)
qed

lemma collapsed_space: "collapsed s \<Longrightarrow> c \<in> set s \<Longrightarrow> isspace c \<Longrightarrow> c = CHR '' ''"
  by (induction s) (auto split: if_splits)

lemma replace_absent: "old \<notin> set s \<Longrightarrow> replace old new s = s"
  by (induction s) (auto simp: replace_def)

lemma set_replace_del: "set (replace old [] s) = set s - {old}"
  by (induction s) (auto simp: replace_def)

lemma set_replace_space: "set (replace old '' '' s) \<subseteq> insert CHR '' '' (set s)"
  by (induction s) (auto simp: replace_def)

lemma set_sub_spaces: "set (sub_spaces s) \<subseteq> insert CHR '' '' (set s)"
  by (induction s rule: sub_spaces.induct) (auto dest: set_dropWhileD)

lemma set_dropWhile_subset: "set (dropWhile P xs) \<subseteq> set xs"
  by (auto dest: set_dropWhileD)

lemma set_strip: "set (strip s) \<subseteq> set s"
proof -
  have "set (dropWhile isspace (rev (dropWhile isspace s))) \<subseteq> set (rev (dropWhile isspace s))"
    by (rule set_dropWhile_subset)
  moreover have "set (dropWhile isspace s) \<subseteq> set s"
    by (rule set_dropWhile_subset)
  ultimately show ?thesis by (auto simp: strip_def)
qed

lemma replace_space_absent:
  "c \<noteq> CHR '' '' \<Longrightarrow> c \<notin> set s \<Longrightarrow> c \<notin> set (replace old '' '' s)"
  using set_replace_space [of old s] by auto

lemma clean_text_field_normal:
  "collapsed (clean_text_field f x) \<and> CHR '','' \<notin> set (clean_text_field f x)"
proof (cases "isna x")
  case True
  then show ?thesis by (simp add: clean_text_field_def)
next
  case False
  define t2 where "t2 = replace CHR '','' [] (py_str f x)"
  define t4 where "t4 = replace CHR 0x09 '' '' (replace CHR 0x0D '' '' (replace CHR 0x0A '' '' t2))"
  have out: "clean_text_field f x = strip (sub_spaces t4)"
    using False by (simp add: clean_text_field_def t2_def t4_def)
  have "CHR '','' \<notin> set t2" by (simp add: t2_def set_replace_del)
  then have "CHR '','' \<notin> set t4"
    unfolding t4_def by (simp add: replace_space_absent)
  then have "CHR '','' \<notin> set (sub_spaces t4)" using set_sub_spaces [of t4] by auto
  then have "CHR '','' \<notin> set (strip (sub_spaces t4))" using set_strip by blast
  moreover have "collapsed (strip (sub_spaces t4))"
    by (rule collapsed_strip) (rule collapsed_sub_spaces)
  ultimately show ?thesis by (simp add: out)
qed

lemma clean_text_field_fixed:
  assumes "collapsed s" and "CHR '','' \<notin> set s" and "strip s = s"
  shows "clean_text_field f (Str s) = s"
proof -
  have sp: "isspace (CHR 0x0A)" "isspace (CHR 0x0D)" "isspace (CHR 0x09)"
    by (simp_all add: isspace_def)
  have "CHR 0x0A \<notin> set s" "CHR 0x0D \<notin> set s" "CHR 0x09 \<notin> set s"
    using collapsed_space [OF assms(1)] sp by fastforce+
  then show ?thesis
    using assms
    by (simp add: clean_text_field_def isna_def py_str_def replace_absent sub_spaces_collapsed)
qed

lemma COUNTRY_CODES_length:
  "map_of COUNTRY_CODES k = Some v \<Longrightarrow> length v = 2"
proof -
  assume "map_of COUNTRY_CODES k = Some v"
  then have "(k, v) \<in> set COUNTRY_CODES" by (rule map_of_SomeD)
  moreover have "\<forall>(k, v) \<in> set COUNTRY_CODES. length v = 2"
    by (simp add: COUNTRY_CODES_def)
  ultimately show ?thesis by blast
qed

section \<open>AddressValidator: the list of errors\<close>

lemma required_fields_not_phone: "phone_col \<notin> set required_fields"
  by (simp add: required_fields_def)

lemma required_fields_distinct: "distinct required_fields"
  by (simp add: required_fields_def)

lemma concat_map_if: "concat (map (\<lambda>x. if P x then [g x] else []) xs) = map g (filter P xs)"
  by (induction xs) auto

lemma validate_address_eq:
  "validate_address f r ref =
     (let errors =
        map (\<lambda>field. Ref ref (''Missing required field: '' @ field))
            (filter (\<lambda>field. is_blank f (r field)) required_fields) @
        (if is_blank f (r phone_col) then [Ref ref ''Missing phone number''] else [])
      in (errors = [], errors))"
proof -
  have "(\<lambda>field. case validate_required_fields f r field of
                   (is_valid, error) \<Rightarrow> if \<not> is_valid then [Ref ref error] else []) =
        (\<lambda>field. if is_blank f (r field)
                  then [Ref ref (''Missing required field: '' @ field)] else [])"
    by (auto simp: validate_required_fields_def)
  then show ?thesis
    by (simp add: validate_address_def concat_map_if)
qed

lemma filter_single:
  "distinct xs \<Longrightarrow> y \<in> set xs \<Longrightarrow> P y \<Longrightarrow> (\<And>x. x \<in> set xs \<Longrightarrow> x \<noteq> y \<Longrightarrow> \<not> P x) \<Longrightarrow>
   filter P xs = [y]"
proof (induction xs)
  case Nil
  then show ?case by simp
next
  case (Cons a xs)
  show ?case
  proof (cases "a = y")
    case True
    with Cons.prems have "filter P xs = []" by (auto simp: filter_empty_conv)
    with True Cons.prems show ?thesis by simp
  next
    case False
    with Cons show ?thesis by auto
  qed
qed

section \<open>Columns of a table\<close>

lemma map_of_apply_column:
  "map_of (apply_column f col d) k =
     (if k = col then map_option (map f) (map_of d k) else map_of d k)"
  by (induction d) (auto simp: apply_column_def)

lemma map_of_fold_apply_column:
  "k \<notin> set cols \<Longrightarrow> map_of (fold (apply_column f) cols d) k = map_of d k"
  by (induction cols arbitrary: d) (auto simp: map_of_apply_column)

lemma map_of_set_column:
  "map_of (set_column col vs d) k = (if k = col then Some vs else map_of d k)"
  by (induction d) auto

lemma map_of_drop_columns:
  "map_of (drop_columns names d) k = (if k \<in> set names then None else map_of d k)"
  by (induction d) (auto simp: drop_columns_def)

lemma get_column_Inr: "get_column col d = Inr cs \<longleftrightarrow> map_of d col = Some cs"
  by (simp add: get_column_def split: option.splits)

lemma wf_table_lengths:
  "wf_table d \<Longrightarrow> map_of d a = Some xs \<Longrightarrow> map_of d b = Some ys \<Longrightarrow> length xs = length ys"
proof -
  assume wf: "wf_table d" and a: "map_of d a = Some xs" and b: "map_of d b = Some ys"
  from a b have "(a, xs) \<in> set d" "(b, ys) \<in> set d" by (auto dest: map_of_SomeD)
  with wf show ?thesis by (fastforce simp: wf_table_def list_all_iff)
qed

lemma those_length: "those xs = Some ys \<Longrightarrow> length ys = length xs"
  by (induction xs arbitrary: ys) (auto split: option.splits)

lemma those_nth: "those xs = Some ys \<Longrightarrow> i < length xs \<Longrightarrow> xs ! i = Some (ys ! i)"
proof (induction xs arbitrary: ys i)
  case Nil
  then show ?case by simp
next
  case (Cons x xs)
  then show ?case by (cases i) (auto split: option.splits)
qed

section \<open>The warnings of the reconciliation\<close>



lemma filter_id_empty: "filter id ms = [] \<longleftrightarrow> True \<notin> set ms"
  by (induction ms) auto

text \<open>What a successful reconciliation returns.\<close>

lemma reconcile_success:
  assumes "get_column qty_col d = Inr qty"
    and "get_column price_col d = Inr price"
    and "get_column value_col d = Inr declared"
    and "those (map2 cell_mul qty price) = Some calculated"
    and "those (map2 value_mismatch declared calculated) = Some mismatch"
  shows "reconcile d warnings =
     (if True \<in> set mismatch then
        (case get_column ref_col d of
           Inl e \<Rightarrow> (Inl e, [(WARNING, Found_incorrect_declared_values (length (filter id mismatch)))])
         | Inr refs \<Rightarrow>
             (Inr (drop_columns temp_columns (set_column value_col calculated d),
                   warnings @ mismatch_warnings 0 mismatch refs declared calculated),
              [(WARNING, Found_incorrect_declared_values (length (filter id mismatch)))]))
      else (Inr (drop_columns temp_columns d, warnings), []))"
  using assms by (simp add: reconcile_def filter_id_empty Let_def split: sum.splits)

lemma calculate_declared_values_success:
  assumes "df st = Some d"
    and "get_column qty_col d = Inr qty"
    and "get_column price_col d = Inr price"
    and "get_column value_col d = Inr declared"
    and "those (map2 cell_mul qty price) = Some calculated"
    and "those (map2 value_mismatch declared calculated) = Some mismatch"
    and "calculate_declared_values st = (True, st')"
  shows "if True \<in> set mismatch
         then \<exists>refs. get_column ref_col d = Inr refs \<and>
                st' = logged [(WARNING, Found_incorrect_declared_values (length (filter id mismatch)))]
                        (st\<lparr>df := Some (drop_columns temp_columns (set_column value_col calculated d)),
                            validation_warnings := validation_warnings st @
                              mismatch_warnings 0 mismatch refs declared calculated\<rparr>)
         else st' = logged [] (st\<lparr>df := Some (drop_columns temp_columns d),
                                   validation_warnings := validation_warnings st\<rparr>)"
  using assms(1,7) reconcile_success [OF assms(2-6), of "validation_warnings st"]
  by (auto simp: calculate_declared_values_def split: sum.splits if_splits)

lemma get_column_reconciled:
  "get_column value_col (drop_columns temp_columns (set_column value_col calculated d)) = Inr calculated"
  by (simp add: get_column_def map_of_drop_columns map_of_set_column temp_columns_def)

lemma get_column_dropped:
  "get_column value_col (drop_columns temp_columns d) = get_column value_col d"
  by (simp add: get_column_def map_of_drop_columns temp_columns_def)

lemma is_number_nth: "list_all is_number cs \<Longrightarrow> i < length cs \<Longrightarrow> \<exists>x. cs ! i = Num x"
proof -
  assume "list_all is_number cs" and "i < length cs"
  then have "is_number (cs ! i)" by (simp add: list_all_length)
  then show ?thesis by (cases "cs ! i") (simp_all add: is_number_def)
qed

text \<open>
  Where the quantity, the unit price and the declared value of every row are numbers,
  every row of the reconciled table is within the tolerance of its product.
\<close>

lemma reconciled_numbers_within_tolerance:
  assumes "wf_table d"
    and "df st = Some d"
    and "get_column qty_col d = Inr qty"
    and "get_column price_col d = Inr price"
    and "get_column value_col d = Inr declared"
    and "those (map2 cell_mul qty price) = Some calculated"
    and "those (map2 value_mismatch declared calculated) = Some mismatch"
    and "calculate_declared_values st = (True, st')"
    and "list_all is_number qty" and "list_all is_number price" and "list_all is_number declared"
  shows "\<exists>d' reconciled. df st' = Some d' \<and> get_column value_col d' = Inr reconciled \<and>
           length reconciled = length qty \<and>
           (\<forall>i < length qty. \<exists>x q p. reconciled ! i = Num x \<and> qty ! i = Num q \<and>
               price ! i = Num p \<and> \<bar>x - q * p\<bar> \<le> tolerance)"
proof -
  have mq: "map_of d qty_col = Some qty" and mp: "map_of d price_col = Some price"
    and mv: "map_of d value_col = Some declared"
    using assms(3,4,5) by (simp_all add: get_column_Inr)
  have lq: "length price = length qty" "length declared = length qty"
    by (rule wf_table_lengths [OF assms(1) mp mq], rule wf_table_lengths [OF assms(1) mv mq])
  have lc: "length calculated = length qty"
    using those_length [OF assms(6)] lq by simp
  have lm: "length mismatch = length qty"
    using those_length [OF assms(7)] lq lc by simp
  have calc: "\<exists>q p. qty ! i = Num q \<and> price ! i = Num p \<and> calculated ! i = Num (q * p)"
    if i: "i < length qty" for i
  proof -
    from i assms(9,10) lq obtain q p where qp: "qty ! i = Num q" "price ! i = Num p"
      using is_number_nth [of qty i] is_number_nth [of price i] by auto
    from i lq have "map2 cell_mul qty price ! i = Some (calculated ! i)"
      by (intro those_nth [OF assms(6)]) simp
    with i lq qp have "calculated ! i = Num (q * p)"
      by (simp add: cell_mul_def)
    with qp show ?thesis by blast
  qed
  show ?thesis
  proof (cases "True \<in> set mismatch")
    case True
    with calculate_declared_values_success [OF assms(2-8)]
    have "df st' = Some (drop_columns temp_columns (set_column value_col calculated d))"
      by (auto simp: logged_def)
    moreover have "\<forall>i < length qty. \<exists>x q p. calculated ! i = Num x \<and> qty ! i = Num q \<and>
               price ! i = Num p \<and> \<bar>x - q * p\<bar> \<le> tolerance"
      using calc by (fastforce simp: tolerance_def)
    ultimately show ?thesis
      using lc get_column_reconciled by blast
  next
    case False
    with calculate_declared_values_success [OF assms(2-8)]
    have "df st' = Some (drop_columns temp_columns d)"
      by (auto simp: logged_def)
    moreover have "\<exists>x q p. declared ! i = Num x \<and> qty ! i = Num q \<and>
               price ! i = Num p \<and> \<bar>x - q * p\<bar> \<le> tolerance" if i: "i < length qty" for i
    proof -
      from calc [OF i] obtain q p where qp: "qty ! i = Num q" "price ! i = Num p"
        "calculated ! i = Num (q * p)" by blast
      from i lq assms(11) obtain x where x: "declared ! i = Num x"
        using is_number_nth [of declared i] by auto
      from i lq lc have "map2 value_mismatch declared calculated ! i = Some (mismatch ! i)"
        by (intro those_nth [OF assms(7)]) simp
      moreover from False i lm have "\<not> mismatch ! i" by (metis nth_mem)
      ultimately have "\<bar>x - q * p\<bar> \<le> tolerance"
        using i lq lc qp x by (simp add: value_mismatch_def cell_sub_def)
      with qp x show ?thesis by blast
    qed
    ultimately show ?thesis
      using lq assms(5) by (auto simp: get_column_dropped)
  qed
qed

section \<open>clean_data\<close>

lemma country_not_cleaned_before:
  "country_col \<notin> set text_columns" "country_col \<noteq> phone_col" "country_col \<notin> set postal_cols"
  by (simp_all add: text_columns_def postal_cols_def)

lemma clean_data_result:
  assumes "df st = Some d"
  shows "\<exists>d'. clean_data env st =
           (True, st\<lparr>df := Some d',
                     log := log st @
                       (case map_of d country_col of
                          None \<Rightarrow> []
                        | Some cs \<Rightarrow> concat (map (\<lambda>c. snd (standardize_country (number_str env) c)) cs))\<rparr>)"
proof -
  let ?f = "number_str env"
  let ?d3 = "fold (apply_column (\<lambda>c. Str (clean_postal_code ?f c))) postal_cols
              (apply_column (\<lambda>c. Str (clean_phone_number ?f c)) phone_col
                (fold (apply_column (\<lambda>c. Str (clean_text_field ?f c))) text_columns d))"
  have "map_of ?d3 country_col = map_of d country_col"
    using country_not_cleaned_before
    by (simp add: map_of_fold_apply_column map_of_apply_column)
  then show ?thesis
    using assms
    by (cases "map_of d country_col")
       (auto simp: clean_data_def standardize_countries_def Let_def logged_def comp_def)
qed

section \<open>Well-formed tables\<close>














section \<open>Columns without text\<close>







section \<open>The steps of the pipeline\<close>












section \<open>DataCleaner and CountryCodeMapper: the claims\<close>

text \<open>
  C10. The phone-cleaning function is idempotent: cleaning the string it returned
  returns that string again. The first call may be given any cell (a string, a number
  or a missing value).
\<close>

theorem clean_phone_number_idempotent:
  "clean_phone_number f (Str (clean_phone_number f x)) = clean_phone_number f x"
  by (simp add: clean_phone_number_def isna_def py_str_def)

text \<open>
  C8. The text-cleaning function is idempotent: for every input \<open>x\<close>,
  \<open>cleanText (cleanText x) = cleanText x\<close>. The output has no comma, its whitespace
  is single spaces between other characters, and such a string is left as it is.
\<close>

theorem clean_text_field_idempotent:
  "clean_text_field f (Str (clean_text_field f x)) = clean_text_field f x"
proof (rule clean_text_field_fixed)
  show "collapsed (clean_text_field f x)" using clean_text_field_normal by blast
  show "CHR '','' \<notin> set (clean_text_field f x)" using clean_text_field_normal by blast
  show "strip (clean_text_field f x) = clean_text_field f x"
  proof (cases "isna x")
    case True
    then show ?thesis by (simp add: clean_text_field_def strip_def)
  next
    case False
    then show ?thesis by (simp add: clean_text_field_def strip_strip)
  qed
qed

text \<open>
  C7. For every input (empty, missing, a known alias, a two-letter code, an unknown
  name, a number) the country standardizer returns a string of exactly two characters.
\<close>

theorem standardize_country_length:
  "length (fst (standardize_country f c)) = 2"
  by (auto simp: standardize_country_def Let_def COUNTRY_CODES_length split: option.splits)

text \<open>
  C3, as the code has it. The output of the phone-cleaning function contains only
  digits and plus signs, and it keeps every plus sign of the input string wherever it
  stands: the output has as many plus signs as the input. Nothing limits them to one,
  or to the leading position.
\<close>

theorem clean_phone_number_keeps_digits_and_plus:
  "list_all (\<lambda>c. isdigit c \<or> c = CHR ''+'') (clean_phone_number f x) \<and>
   count_list (clean_phone_number f (Str s)) (CHR ''+'') = count_list s (CHR ''+'')"
proof
  show "list_all (\<lambda>c. isdigit c \<or> c = CHR ''+'') (clean_phone_number f x)"
    by (simp add: clean_phone_number_def list_all_iff)
  have "count_list (filter P s) c = (if P c then count_list s c else 0)" for P and c :: char
    by (induction s) auto
  then show "count_list (clean_phone_number f (Str s)) (CHR ''+'') = count_list s (CHR ''+'')"
    by (simp add: clean_phone_number_def isna_def py_str_def)
qed

text \<open>
  C3 as stated fails: the input \<open>1+2+3\<close> is returned unchanged, with two plus signs,
  neither of them leading.
\<close>

theorem clean_phone_number_two_plus_signs:
  "clean_phone_number str_whole (Str ''1+2+3'') = ''1+2+3'' \<and>
   \<not> count_list (clean_phone_number str_whole (Str ''1+2+3'')) (CHR ''+'') \<le> 1 \<and>
   hd (clean_phone_number str_whole (Str ''1+2+3'')) \<noteq> CHR ''+''"
  by code_simp

section \<open>AddressValidator: the claim\<close>

text \<open>
  C6. For every record whose six required fields (attention name, address line 1, city,
  country, postal code, recipient phone number) are all non-empty, the address validator
  returns an empty list of issues. For every record obtained from such a record by
  emptying one required field (the value is missing, empty or whitespace, or the field
  is absent) it returns exactly one error, tagged with the reference number: for the
  five named fields its message is \<open>Missing required field:\<close> followed by the name of
  the field, for the phone number it is \<open>Missing phone number\<close>.
\<close>

theorem validate_address_required_fields:
  assumes "list_all (\<lambda>field. \<not> is_blank f (r field)) (required_fields @ [phone_col])"
  shows "validate_address f r ref = (True, []) \<and>
         (\<forall>field v. field \<in> set required_fields \<and> is_blank f v \<longrightarrow>
            validate_address f (r(field := v)) ref =
              (False, [Ref ref (''Missing required field: '' @ field)])) \<and>
         (\<forall>v. is_blank f v \<longrightarrow>
            validate_address f (r(phone_col := v)) ref =
              (False, [Ref ref ''Missing phone number'']))"
proof (intro conjI allI impI)
  from assms have req: "\<And>x. x \<in> set required_fields \<Longrightarrow> \<not> is_blank f (r x)"
    and phone: "\<not> is_blank f (r phone_col)"
    by (auto simp: list_all_iff)
  from req have none: "filter (\<lambda>field. is_blank f (r field)) required_fields = []"
    by (auto simp: filter_empty_conv)
  show "validate_address f r ref = (True, [])"
    by (simp add: validate_address_eq none phone)
  {
    fix field v
    assume a: "field \<in> set required_fields \<and> is_blank f v"
    have "filter (\<lambda>x. is_blank f ((r(field := v)) x)) required_fields = [field]"
      using required_fields_distinct a req by (intro filter_single) auto
    moreover have "\<not> is_blank f ((r(field := v)) phone_col)"
      using a phone required_fields_not_phone by auto
    ultimately show "validate_address f (r(field := v)) ref =
              (False, [Ref ref (''Missing required field: '' @ field)])"
      by (simp add: validate_address_eq)
  }
  {
    fix v
    assume b: "is_blank f v"
    have "filter (\<lambda>x. is_blank f ((r(phone_col := v)) x)) required_fields = []"
      using req required_fields_not_phone by (auto simp: filter_empty_conv)
    with b show "validate_address f (r(phone_col := v)) ref = (False, [Ref ref ''Missing phone number''])"
      by (simp add: validate_address_eq)
  }
qed

text \<open>The theorem at a complete row, with the city blanked and with the phone missing.\<close>

theorem validate_address_required_fields_witness:
  "list_all (\<lambda>field. \<not> is_blank str_whole (complete_row field)) (required_fields @ [phone_col]) \<and>
   validate_address str_whole complete_row (Num 1) = (True, []) \<and>
   validate_address str_whole (complete_row(''CITY (required)'' := Some (Str '' ''))) (Num 1) =
     (False, [Ref (Num 1) ''Missing required field: CITY (required)'']) \<and>
   validate_address str_whole (complete_row(phone_col := Some NaN)) (Num 1) =
     (False, [Ref (Num 1) ''Missing phone number''])"
proof -
  have h: "list_all (\<lambda>field. \<not> is_blank str_whole (complete_row field)) (required_fields @ [phone_col])"
    by code_simp
  have c: "''CITY (required)'' \<in> set required_fields \<and> is_blank str_whole (Some (Str '' ''))"
    by code_simp
  have p: "is_blank str_whole (Some NaN)"
    by code_simp
  from validate_address_required_fields [OF h, of "Num 1"] c p h show ?thesis
    by simp
qed

section \<open>The reconciliation of declared values: the claims\<close>




text \<open>
  C5 fails on the code where a declared value is missing. The difference of a missing
  value and the product is missing, and its comparison with the tolerance is false: the
  row is not counted as a mismatch. With quantity 2, unit price 5 and no declared value
  in the first row and a second row within the tolerance, the step completes, emits no
  warning and leaves the declared value missing, so that row does not satisfy
  \<open>|declaredValue - quantity * unitPrice| \<le> 0.01\<close>. The same row is filled in with
  10 when the second row is out of tolerance.
\<close>

theorem missing_declared_value_is_left_missing:
  "get_column qty_col manifest_missing_value = Inr [Num 2, Num 1] \<and>
   get_column price_col manifest_missing_value = Inr [Num 5, Num 1] \<and>
   get_column value_col manifest_missing_value = Inr [NaN, Num 1] \<and>
   fst (calculate_declared_values (loaded manifest_missing_value)) \<and>
   map_option (get_column value_col) (df (snd (calculate_declared_values (loaded manifest_missing_value)))) =
     Some (Inr [NaN, Num 1]) \<and>
   validation_warnings (snd (calculate_declared_values (loaded manifest_missing_value))) = [] \<and>
   get_column value_col manifest_missing_value_mismatch = Inr [NaN, Num 3] \<and>
   fst (calculate_declared_values (loaded manifest_missing_value_mismatch)) \<and>
   map_option (get_column value_col)
     (df (snd (calculate_declared_values (loaded manifest_missing_value_mismatch)))) =
     Some (Inr [Num 10, Num 1]) \<and>
   validation_warnings (snd (calculate_declared_values (loaded manifest_missing_value_mismatch))) =
     [Declared_value_corrected (Num 1) 3 (Num 3) (Num 1)]"
  by code_simp

section \<open>The warnings of the country standardizer: the claim\<close>

text \<open>
  C4, as the code has it. For every empty or missing country input the standardizer
  returns \<open>XX\<close> and logs one warning, and for every unknown country name it logs one
  warning. These warnings are records of the logger only: \<^verbatim>\<open>clean_data\<close>, which
  calls the standardizer on every cell of the country column, leaves
  \<^verbatim>\<open>validation_errors\<close> and \<^verbatim>\<open>validation_warnings\<close> as they were, and the log
  grows by what the calls have logged.
\<close>

theorem country_warnings_are_only_logged:
  "(isna c \<or> falsy c \<longrightarrow> standardize_country f c = (''XX'', [(WARNING, Empty_country_field)])) \<and>
   (\<not> (isna c \<or> falsy c) \<and>
    \<not> (length (upper (strip (py_str f c))) = 2 \<and> isalpha (upper (strip (py_str f c)))) \<and>
    map_of COUNTRY_CODES (upper (strip (py_str f c))) = None \<longrightarrow>
      snd (standardize_country f c) = [(WARNING, Unknown_country_format c)]) \<and>
   validation_errors (snd (clean_data env st)) = validation_errors st \<and>
   validation_warnings (snd (clean_data env st)) = validation_warnings st \<and>
   (\<forall>d cs. df st = Some d \<and> get_column country_col d = Inr cs \<longrightarrow>
      log (snd (clean_data env st)) =
        log st @ concat (map (\<lambda>c. snd (standardize_country (number_str env) c)) cs))"
proof (intro conjI allI impI)
  assume "isna c \<or> falsy c"
  then show "standardize_country f c = (''XX'', [(WARNING, Empty_country_field)])"
    by (simp add: standardize_country_def)
next
  assume "\<not> (isna c \<or> falsy c) \<and>
    \<not> (length (upper (strip (py_str f c))) = 2 \<and> isalpha (upper (strip (py_str f c)))) \<and>
    map_of COUNTRY_CODES (upper (strip (py_str f c))) = None"
  then show "snd (standardize_country f c) = [(WARNING, Unknown_country_format c)]"
    by (simp add: standardize_country_def Let_def)
next
  show "validation_errors (snd (clean_data env st)) = validation_errors st"
  proof (cases "df st")
    case None
    then show ?thesis by (simp add: clean_data_def logged_def)
  next
    case (Some d)
    from clean_data_result [OF this, of env] show ?thesis by auto
  qed
next
  show "validation_warnings (snd (clean_data env st)) = validation_warnings st"
  proof (cases "df st")
    case None
    then show ?thesis by (simp add: clean_data_def logged_def)
  next
    case (Some d)
    from clean_data_result [OF this, of env] show ?thesis by auto
  qed
next
  fix d cs
  assume a: "df st = Some d \<and> get_column country_col d = Inr cs"
  then have "map_of d country_col = Some cs" by (simp add: get_column_Inr)
  with a clean_data_result [of st d env]
  show "log (snd (clean_data env st)) =
        log st @ concat (map (\<lambda>c. snd (standardize_country (number_str env) c)) cs)"
    by auto
qed

text \<open>The theorem at a manifest whose first country is missing and whose second one
  is the unknown name \<open>Atlantis\<close>.\<close>

theorem country_warnings_are_only_logged_witness:
  "standardize_country str_whole NaN = (''XX'', [(WARNING, Empty_country_field)]) \<and>
   validation_errors (snd (clean_data (file_with manifest_unknown_country) (loaded manifest_unknown_country))) = [] \<and>
   validation_warnings (snd (clean_data (file_with manifest_unknown_country) (loaded manifest_unknown_country))) = [] \<and>
   log (snd (clean_data (file_with manifest_unknown_country) (loaded manifest_unknown_country))) =
     [(WARNING, Empty_country_field), (WARNING, Unknown_country_format (Str ''Atlantis''))]"
proof -
  let ?st = "loaded manifest_unknown_country"
  let ?env = "file_with manifest_unknown_country"
  have h: "isna NaN \<or> falsy NaN" by code_simp
  have d: "df ?st = Some manifest_unknown_country \<and>
           get_column country_col manifest_unknown_country = Inr [NaN, Str ''Atlantis'']"
    by code_simp
  have s: "validation_errors ?st = []" "validation_warnings ?st = []" "log ?st = []"
    by (simp_all add: loaded_def init_def)
  have l: "concat (map (\<lambda>c. snd (standardize_country (number_str ?env) c)) [NaN, Str ''Atlantis'']) =
           [(WARNING, Empty_country_field), (WARNING, Unknown_country_format (Str ''Atlantis''))]"
    by code_simp
  from country_warnings_are_only_logged [of NaN str_whole ?env ?st] h d s l
  show ?thesis by (simp add: s)
qed

text \<open>
  C4 as stated fails. For a manifest with no country in either row the full run
  succeeds, both countries become \<open>XX\<close>, and the two issue sequences the caller
  reads are empty: the only trace of the empty countries is in the log.
\<close>

theorem empty_country_not_surfaced:
  "get_column country_col manifest_no_country = Inr [NaN, NaN] \<and>
   fst (process (file_with manifest_no_country) (init ''shipments.csv'')) \<and>
   map_option (get_column country_col)
     (df (snd (process (file_with manifest_no_country) (init ''shipments.csv'')))) =
     Some (Inr [Str ''XX'', Str ''XX'']) \<and>
   validation_errors (snd (process (file_with manifest_no_country) (init ''shipments.csv''))) = [] \<and>
   validation_warnings (snd (process (file_with manifest_no_country) (init ''shipments.csv''))) = [] \<and>
   log (snd (process (file_with manifest_no_country) (init ''shipments.csv''))) =
     [(WARNING, Empty_country_field), (WARNING, Empty_country_field)]"
  by code_simp

section \<open>The pipeline: the claims\<close>

text \<open>
  C9. For every input file whose extension, in lower case, is not one of \<open>.xlsx\<close>,
  \<open>.xls\<close> and \<open>.csv\<close>, the full pipeline run returns failure at its first step:
  nothing is loaded (the table of the splitter stays \<open>None\<close>), no file is written, and
  the only record logged is the error of \<^verbatim>\<open>validate_input_file\<close>.
\<close>

theorem process_rejects_extension:
  assumes "lower (suffix name) \<notin> set valid_extensions"
  shows "process env (init name) =
           (False, logged [(ERROR, if file_exists env then Unsupported_file_format (suffix name)
                                   else Input_file_does_not_exist name)] (init name)) \<and>
         df (snd (process env (init name))) = None \<and>
         written (snd (process env (init name))) = []"
  using assms
  by (simp add: process_def validate_input_file_def init_def logged_def)

text \<open>The theorem at a file \<open>shipments.PDF\<close> that exists.\<close>

theorem process_rejects_extension_witness:
  "lower (suffix ''shipments.PDF'') \<notin> set valid_extensions \<and>
   process (file_with manifest31) (init ''shipments.PDF'') =
     (False, logged [(ERROR, Unsupported_file_format ''.PDF'')] (init ''shipments.PDF'')) \<and>
   df (snd (process (file_with manifest31) (init ''shipments.PDF''))) = None \<and>
   written (snd (process (file_with manifest31) (init ''shipments.PDF''))) = []"
proof -
  have h: "lower (suffix ''shipments.PDF'') \<notin> set valid_extensions"
    by code_simp
  have s: "suffix ''shipments.PDF'' = ''.PDF''" "file_exists (file_with manifest31)"
    by code_simp+
  from process_rejects_extension [OF h, of "file_with manifest31"] h s show ?thesis
    by (simp add: logged_def init_def)
qed




end
